theory Spec2Isabelle
  imports Main "HOL-Library.Sublist"
begin

section \<open>Shared data: exceptions, JSON values, HTTP responses\<close>

text \<open>
  Every \<^verbatim>\<open>raise\<close> of the two modules, and every exception the interpreter or a
  library raises on the paths modelled here, is a value of \<open>exn\<close>.

  \<^item> \<open>HttpError c\<close> is \<^verbatim>\<open>Exception(f"Error: {response.status_code}")\<close>.
  \<^item> \<open>DownloadFailed\<close> is \<^verbatim>\<open>Exception(f"Download Failed! Elapsed time: ...")\<close>
    (line 212 of rivaliq_functions.py).
  \<^item> \<open>NotSubscriptable l\<close> is the \<^verbatim>\<open>TypeError\<close> ('Response' object is not
    subscriptable) that the interpreter raises when \<^verbatim>\<open>response['status_code']\<close> is
    evaluated on a \<^verbatim>\<open>requests.Response\<close>, which defines no \<^verbatim>\<open>__getitem__\<close>;
    \<open>l\<close> is the source line of the expression, as a traceback reports it.
  \<^item> \<open>KeyError k\<close> is a missing dictionary key, \<open>JSONDecodeError\<close> is
    \<^verbatim>\<open>response.json()\<close> on a body that is not JSON.
  \<^item> \<open>TooManyCompanies\<close> and \<open>NotAllIntegers\<close> are the two exceptions of
    \<^verbatim>\<open>post_followCompanies\<close>.
  \<^item> \<open>ValueError m\<close> carries its message.
  \<^item> \<open>EmptyDataError\<close>, \<open>ParserError\<close> are the two pandas errors the source names;
    \<open>OtherError\<close> is any other exception of the CSV reader.
  \<^item> \<open>OSError\<close> is an exception of \<^verbatim>\<open>os.makedirs\<close>, \<^verbatim>\<open>open\<close> or \<^verbatim>\<open>file.write\<close>.
\<close>

datatype exn =
    HttpError int
  | DownloadFailed
  | NotSubscriptable nat
  | KeyError string
  | JSONDecodeError
  | TooManyCompanies
  | NotAllIntegers
  | ValueError string
  | EmptyDataError
  | ParserError
  | OtherError
  | OSError

text \<open>
  The JSON values the source inspects are scalars: the \<^verbatim>\<open>status\<close> field is compared
  with the integers 2 and 3, the \<^verbatim>\<open>href\<close> field is returned as it is.
\<close>

datatype jval = JInt int | JStr string | JBool bool | JNull

text \<open>
  A \<^verbatim>\<open>requests.Response\<close>: the status code, the body text, and what
  \<^verbatim>\<open>response.json()\<close> yields: \<open>None\<close> when the body is not JSON (the call raises),
  otherwise the decoded object as a dictionary.
\<close>

record response =
  status_code :: int
  text_of :: string
  json :: "(string \<rightharpoonup> jval) option"

section \<open>The bulk-download poller (rivaliq\_functions.py)\<close>

text \<open>
  The poller talks to the network and to the clock. Both are explicit: the remote
  service is a function giving the response to the k-th status query (counted from 0),
  and the world is the chronological trace of what the program did: status queries
  and calls of \<^verbatim>\<open>time.sleep\<close> with their duration in seconds. The printed messages
  are not part of the model (they format floating-point elapsed times).
\<close>

datatype event = Query | Sleep nat

type_synonym world = "event list"

type_synonym remote = "nat \<Rightarrow> response"

definition queries :: "world \<Rightarrow> nat" where
  "queries w = length (filter (\<lambda>e. e = Query) w)"

fun sleep_time :: "event \<Rightarrow> nat" where
  "sleep_time Query = 0"
| "sleep_time (Sleep s) = s"

definition slept :: "world \<Rightarrow> nat" where
  "slept w = sum_list (map sleep_time w)"

text \<open>
  \<^verbatim>\<open>get_bulkDownload_status\<close> (lines 171-189): one GET; the response is returned
  when its status code is 200, otherwise \<^verbatim>\<open>Exception(f"Error: {status_code}")\<close>.
\<close>

definition get_bulkDownload_status :: "remote \<Rightarrow> world \<Rightarrow> (exn + response) \<times> world" where
  "get_bulkDownload_status srv w =
     (let response = srv (queries w); w' = w @ [Query]
      in if status_code response = 200 then (Inr response, w')
         else (Inl (HttpError (status_code response)), w'))"

text \<open>
  \<^verbatim>\<open>response['status_code']\<close> and \<^verbatim>\<open>response['text']\<close>: subscripting a
  \<^verbatim>\<open>requests.Response\<close>. The class defines no \<^verbatim>\<open>__getitem__\<close>, so whatever the key
  the interpreter raises \<^verbatim>\<open>TypeError\<close>; the first argument is the source line.
\<close>

definition subscript_response :: "nat \<Rightarrow> response \<Rightarrow> string \<Rightarrow> exn + string" where
  "subscript_response line response key = Inl (NotSubscriptable line)"

text \<open>
  \<^verbatim>\<open>check_bulkDownload_status\<close> (lines 192-220). The source is recursive: each
  "still in progress" answer sleeps 60 seconds and calls the function again. The first
  argument of the model bounds the number of nested calls; the result \<open>None\<close> means
  that the function has neither returned nor raised within that many calls. The
  interpreter's own recursion limit is not part of the function; \<open>fits_stack\<close> below
  states it, for the theorems that need the calls to stay within it.

  A returned value is \<^verbatim>\<open>data['href']\<close>. The branch for status 3 and the final
  \<^verbatim>\<open>else\<close> both start with a print of \<^verbatim>\<open>response['status_code']\<close> (lines 210 and
  218); their \<^verbatim>\<open>raise\<close> statements (lines 212 and 220) come after it.
\<close>

fun check_bulkDownload_status ::
  "nat \<Rightarrow> remote \<Rightarrow> world \<Rightarrow> (exn + jval) option \<times> world" where
  "check_bulkDownload_status 0 srv w = (None, w)"
| "check_bulkDownload_status (Suc fuel) srv w =
     (case get_bulkDownload_status srv w of
        (Inl e, w1) \<Rightarrow> (Some (Inl e), w1)
      | (Inr response, w1) \<Rightarrow>
          if status_code response = 200 then
            (case json response of
               None \<Rightarrow> (Some (Inl JSONDecodeError), w1)
             | Some data \<Rightarrow>
                 (case data ''status'' of
                    None \<Rightarrow> (Some (Inl (KeyError ''status'')), w1)
                  | Some status \<Rightarrow>
                      if status = JInt 2 then
                        (case data ''href'' of
                           None \<Rightarrow> (Some (Inl (KeyError ''href'')), w1)
                         | Some href \<Rightarrow> (Some (Inr href), w1))
                      else if status = JInt 3 then
                        (case subscript_response 210 response ''status_code'' of
                           Inl e \<Rightarrow> (Some (Inl e), w1)
                         | Inr printed \<Rightarrow> (Some (Inl DownloadFailed), w1))
                      else
                        check_bulkDownload_status fuel srv (w1 @ [Sleep 60])))
          else
            (case subscript_response 218 response ''status_code'' of
               Inl e \<Rightarrow> (Some (Inl e), w1)
             | Inr printed \<Rightarrow> (Some (Inl (HttpError (status_code response))), w1)))"

text \<open>
  The spec's vocabulary for poll responses, as predicates on a response: "in progress"
  is an HTTP 200 answer whose status value is neither 2 nor 3, "ready" is status 2 with
  a retrieval address, "failed" is status 3.
\<close>

definition in_progress :: "response \<Rightarrow> bool" where
  "in_progress r =
     (status_code r = 200 \<and>
      (case json r of
         None \<Rightarrow> False
       | Some data \<Rightarrow>
           (case data ''status'' of
              None \<Rightarrow> False
            | Some status \<Rightarrow> status \<noteq> JInt 2 \<and> status \<noteq> JInt 3)))"

definition ready :: "response \<Rightarrow> jval \<Rightarrow> bool" where
  "ready r href =
     (status_code r = 200 \<and>
      (case json r of
         None \<Rightarrow> False
       | Some data \<Rightarrow> data ''status'' = Some (JInt 2) \<and> data ''href'' = Some href))"

definition failed :: "response \<Rightarrow> bool" where
  "failed r =
     (status_code r = 200 \<and>
      (case json r of
         None \<Rightarrow> False
       | Some data \<Rightarrow> data ''status'' = Some (JInt 3)))"

text \<open>Concrete responses used in the examples below.\<close>

definition pending_response :: response where
  "pending_response =
     \<lparr>status_code = 200, text_of = ''{\"status\": 1}'',
      json = Some [''status'' \<mapsto> JInt 1]\<rparr>"

definition ready_response :: response where
  "ready_response =
     \<lparr>status_code = 200, text_of = ''{\"status\": 2, \"href\": \"https://x/y.csv\"}'',
      json = Some [''status'' \<mapsto> JInt 2, ''href'' \<mapsto> JStr ''https://x/y.csv'']\<rparr>"

definition failed_response :: response where
  "failed_response =
     \<lparr>status_code = 200, text_of = ''{\"status\": 3}'',
      json = Some [''status'' \<mapsto> JInt 3]\<rparr>"


definition stuck_remote :: remote where
  "stuck_remote k = pending_response"

definition slow_remote :: remote where
  "slow_remote k = (if k = 0 then pending_response else ready_response)"

definition failing_remote :: remote where
  "failing_remote k = failed_response"

text \<open>
  The trace of \<open>n\<close> rounds of "query, then sleep 60 seconds".
\<close>

fun polling_trace :: "nat \<Rightarrow> world" where
  "polling_trace 0 = []"
| "polling_trace (Suc n) = Query # Sleep 60 # polling_trace n"

text \<open>
  Two properties of a trace in the spec's words. \<open>within_deadline m t w\<close>: started at
  elapsed time \<open>t\<close>, no status query of \<open>w\<close> is issued after more than \<open>m\<close> seconds
  have been slept (the spec's \<^verbatim>\<open>maxWaitSeconds\<close>; the time slept is a lower bound of
  the wall-clock time). \<open>waits_interval p w\<close>: every wait of \<open>w\<close> lasts \<open>p\<close> seconds
  (the spec's \<^verbatim>\<open>pollIntervalSeconds\<close>).
\<close>

fun within_deadline :: "nat \<Rightarrow> nat \<Rightarrow> world \<Rightarrow> bool" where
  "within_deadline m t [] = True"
| "within_deadline m t (Query # w) = (t \<le> m \<and> within_deadline m t w)"
| "within_deadline m t (Sleep s # w) = within_deadline m (t + s) w"

fun waits_interval :: "nat \<Rightarrow> world \<Rightarrow> bool" where
  "waits_interval p [] = True"
| "waits_interval p (Query # w) = waits_interval p w"
| "waits_interval p (Sleep s # w) = (s = p \<and> waits_interval p w)"

text \<open>
  Every nested call of \<^verbatim>\<open>check_bulkDownload_status\<close> occupies a frame of the
  interpreter's stack, and the interpreter raises \<^verbatim>\<open>RecursionError\<close> when the stack
  would grow beyond its recursion limit (\<^verbatim>\<open>sys.getrecursionlimit()\<close>, 1000 unless the
  program changes it). \<open>fits_stack depth inner calls\<close>: with \<open>depth\<close> frames in use
  when the function is first called (at least the caller's), and \<open>inner\<close> frames
  needed below one call of the function for its request (at least those of
  \<^verbatim>\<open>get_bulkDownload_status\<close> and \<^verbatim>\<open>requests.get\<close>, line 202 and line 183), a chain
  of \<open>calls\<close> nested calls stays within the limit. Only within that depth is the
  recursion of the model the recursion of the source.
\<close>

definition recursion_limit :: nat where
  "recursion_limit = 1000"

definition fits_stack :: "nat \<Rightarrow> nat \<Rightarrow> nat \<Rightarrow> bool" where
  "fits_stack depth inner calls =
     (1 \<le> depth \<and> 2 \<le> inner \<and> depth + calls + inner \<le> recursion_limit)"

section \<open>Strings and delimited text\<close>

text \<open>
  Python's \<^verbatim>\<open>s.split(d)\<close> and \<^verbatim>\<open>d.join(xs)\<close> for a one-character delimiter. The
  split of the empty string is the list holding the empty string.
\<close>

fun split_on :: "char \<Rightarrow> string \<Rightarrow> string list" where
  "split_on d [] = [[]]"
| "split_on d (c # cs) =
     (if c = d then [] # split_on d cs
      else (c # hd (split_on d cs)) # tl (split_on d cs))"

fun join :: "char \<Rightarrow> string list \<Rightarrow> string" where
  "join d [] = []"
| "join d [x] = x"
| "join d (x # y # ys) = x @ d # join d (y # ys)"

definition newline :: char where
  "newline = CHR 0x0A"

definition comma :: char where
  "comma = CHR '',''"

section \<open>The CSV reader\<close>

text \<open>
  Both modules hand text to \<^verbatim>\<open>pandas.read_csv\<close> with default arguments. pandas is
  third-party code, not part of the repository, so the functions below take the reader
  as a parameter \<open>rd :: string \<Rightarrow> exn + 'df\<close> and the general theorems hold for every
  reader.

  Model of third-party code, not a translation of the source: \<open>read_csv\<close> below is a
  hand-written model of what the default reader of pandas does, used for the concrete
  examples only. It is the result of pandas on the bodies that \<open>plain_csv\<close> admits:
  the empty body, and tables of integers under a header, where pandas skips empty
  lines, raises \<^verbatim>\<open>EmptyDataError\<close> when no line is left, takes the first line as the
  column names and reads a column of integer literals that fit 64 bits as integers.
  On any other body (rows shorter or longer than the header, floats, booleans, missing
  values, text, quoted fields, carriage returns, integers beyond 64 bits, repeated or
  empty column names) pandas does more than this model, and no statement below relies
  on the model there. \<open>StrCell f\<close> is a field that is not read as an integer, kept as
  its text.
\<close>

datatype cell = IntCell int | StrCell string

record dataframe =
  columns :: "string list"
  rows :: "cell list list"

definition is_digit :: "char \<Rightarrow> bool" where
  "is_digit c = (48 \<le> (of_char c :: nat) \<and> (of_char c :: nat) \<le> 57)"

definition is_blank :: "char \<Rightarrow> bool" where
  "is_blank c = (c = CHR '' '' \<or> c = CHR 0x09)"

definition is_c_space :: "char \<Rightarrow> bool" where
  "is_c_space c = (c \<in> set [CHR 0x20, CHR 0x09, CHR 0x0A, CHR 0x0B, CHR 0x0C, CHR 0x0D])"

definition digits_value :: "string \<Rightarrow> int" where
  "digits_value ds = foldl (\<lambda>a c. 10 * a + (int (of_char c) - 48)) 0 ds"

text \<open>
  An integer literal: white space around an optional sign and at least one digit, with
  a value that fits 64 bits.
\<close>

definition int_literal :: "string \<Rightarrow> int option" where
  "int_literal f =
     (let s = rev (dropWhile is_c_space (rev (dropWhile is_c_space f)));
          negative = (s \<noteq> [] \<and> hd s = CHR ''-'');
          ds = (if s \<noteq> [] \<and> (hd s = CHR ''-'' \<or> hd s = CHR ''+'') then tl s else s);
          v = (if negative then - digits_value ds else digits_value ds)
      in if ds \<noteq> [] \<and> list_all is_digit ds \<and> - (2 ^ 63) \<le> v \<and> v < 2 ^ 63
         then Some v else None)"

definition pad :: "nat \<Rightarrow> string list \<Rightarrow> string list" where
  "pad n r = r @ replicate (n - length r) []"

definition int_column :: "string list list \<Rightarrow> nat \<Rightarrow> bool" where
  "int_column recs j = list_all (\<lambda>r. int_literal (r ! j) \<noteq> None) recs"

definition read_field :: "string list list \<Rightarrow> string list \<Rightarrow> nat \<Rightarrow> cell" where
  "read_field recs r j =
     (if int_column recs j
      then (case int_literal (r ! j) of Some v \<Rightarrow> IntCell v | None \<Rightarrow> StrCell (r ! j))
      else StrCell (r ! j))"

definition read_csv :: "string \<Rightarrow> exn + dataframe" where
  "read_csv body =
     (case filter (\<lambda>l. \<not> list_all is_blank l) (split_on newline body) of
        [] \<Rightarrow> Inl EmptyDataError
      | header # data \<Rightarrow>
          (let names = split_on comma header;
               n = length names;
               recs = map (split_on comma) data
           in if list_ex (\<lambda>r. n < length r) recs then Inl ParserError
              else Inr \<lparr>columns = names,
                        rows = map (\<lambda>r. map (read_field (map (pad n) recs) (pad n r)) [0..<n])
                                 recs\<rparr>))"

text \<open>
  The bodies on which \<open>read_csv\<close> is pandas: made of newlines, commas, minus signs,
  letters, digits and underscores only; either without any non-empty line, or with a
  first non-empty line of distinct, non-empty column names and, in every other
  non-empty line, exactly one field per column, each an optional minus sign followed by
  digits, with a value that fits 64 bits.
\<close>

definition is_name_char :: "char \<Rightarrow> bool" where
  "is_name_char c =
     ((48 \<le> (of_char c :: nat) \<and> (of_char c :: nat) \<le> 57) \<or>
      (65 \<le> (of_char c :: nat) \<and> (of_char c :: nat) \<le> 90) \<or>
      (97 \<le> (of_char c :: nat) \<and> (of_char c :: nat) \<le> 122) \<or>
      c = CHR ''_'')"

definition canonical_int :: "string \<Rightarrow> bool" where
  "canonical_int f =
     (let ds = (if f \<noteq> [] \<and> hd f = CHR ''-'' then tl f else f)
      in ds \<noteq> [] \<and> list_all is_digit ds \<and> int_literal f \<noteq> None)"

definition plain_csv :: "string \<Rightarrow> bool" where
  "plain_csv body =
     (list_all (\<lambda>c. c = newline \<or> c = comma \<or> c = CHR ''-'' \<or> is_name_char c) body \<and>
      (case filter (\<lambda>l. \<not> list_all is_blank l) (split_on newline body) of
         [] \<Rightarrow> True
       | header # data \<Rightarrow>
           distinct (split_on comma header) \<and>
           list_all (\<lambda>name. name \<noteq> [] \<and> list_all is_name_char name)
             (split_on comma header) \<and>
           list_all (\<lambda>l. length (split_on comma l) = length (split_on comma header) \<and>
                         list_all canonical_int (split_on comma l)) data))"

section \<open>Fetching the result (rivaliq\_functions.py)\<close>

text \<open>
  The operating system behind \<^verbatim>\<open>save_csv\<close> is not part of the repository either, and
  each of its calls can raise (a missing or unwritable directory, a path that is a
  file, a full disk). It is a parameter: \<open>'fs\<close> is the state of the file store, and
  the three operations the source uses return the exception raised, if any, and the
  new state. \<open>open_write\<close> is the \<^verbatim>\<open>with open(filename, 'w')\<close> block: opening, writing
  the text and closing.
\<close>

record 'fs os =
  os_path_exists :: "'fs \<Rightarrow> string \<Rightarrow> bool"
  os_makedirs :: "'fs \<Rightarrow> string \<Rightarrow> exn option \<times> 'fs"
  open_write :: "'fs \<Rightarrow> string \<Rightarrow> string \<Rightarrow> exn option \<times> 'fs"

text \<open>
  The body of \<^verbatim>\<open>if save_csv:\<close> (lines 249-256), for a company id that has already
  been replaced by \<^verbatim>\<open>'all'\<close> when empty: the exception raised, if any, and the file
  store it leaves.
\<close>

definition save_csv_file ::
  "'fs os \<Rightarrow> 'fs \<Rightarrow> string \<Rightarrow> string \<Rightarrow> string \<Rightarrow> string \<Rightarrow> string \<Rightarrow> string \<Rightarrow>
   exn option \<times> 'fs" where
  "save_csv_file sys fs landscapeId companyId mainPeriodStart mainPeriodEnd channel content =
     (let directory = ''bulkSocialPosts/landscape_'' @ landscapeId;
          (made, fs0) =
            (if \<not> os_path_exists sys fs directory then os_makedirs sys fs directory
             else (None, fs));
          filename =
            ''bulkSocialPosts/landscape_'' @ landscapeId
            @ ''/bulkSocialPosts_data_landId_'' @ landscapeId
            @ ''_compIds_'' @ companyId @ ''_start_'' @ mainPeriodStart
            @ ''_end_'' @ mainPeriodEnd @ ''_channel_'' @ channel @ ''.csv''
      in case made of
           Some e \<Rightarrow> (Some e, fs0)
         | None \<Rightarrow> open_write sys fs0 filename content)"

text \<open>
  \<^verbatim>\<open>download_bulkSocialPosts_csv\<close> (lines 222-273). \<open>web\<close> answers the GET of a link,
  and \<open>gets\<close> is the list of the links requested so far, returned with the link of
  this call appended. The file is written before the \<^verbatim>\<open>try\<close>, so an exception of the
  operating system leaves the function. Otherwise the value returned is \<open>Some\<close> table,
  or \<open>None\<close> for Python's \<^verbatim>\<open>None\<close>: the three \<^verbatim>\<open>except\<close> clauses all set
  \<^verbatim>\<open>df = None\<close>, and the \<^verbatim>\<open>else\<close> of the status test only prints, so the function
  ends without a \<^verbatim>\<open>return\<close>.
\<close>

definition download_bulkSocialPosts_csv ::
  "'fs os \<Rightarrow> (string \<Rightarrow> exn + 'df) \<Rightarrow> (string \<Rightarrow> response) \<Rightarrow> string \<Rightarrow> string \<Rightarrow>
   string \<Rightarrow> string \<Rightarrow> string \<Rightarrow> string \<Rightarrow> bool \<Rightarrow> 'fs \<Rightarrow> string list \<Rightarrow>
   (exn + 'df option) \<times> 'fs \<times> string list" where
  "download_bulkSocialPosts_csv sys rd web link landscapeId companyId mainPeriodStart
       mainPeriodEnd channel save_csv fs gets =
     (let r = web link; gets1 = gets @ [link] in
      if status_code r = 200 then
        (let companyId = (if companyId = [] then ''all'' else companyId);
             (saved, fs1) =
               (if save_csv then
                  save_csv_file sys fs landscapeId companyId mainPeriodStart mainPeriodEnd
                    channel (text_of r)
                else (None, fs))
         in case saved of
              Some e \<Rightarrow> (Inl e, fs1, gets1)
            | None \<Rightarrow>
                (let df =
                       (case rd (text_of r) of
                          Inr table \<Rightarrow> Some table
                        | Inl e \<Rightarrow>
                            if e = EmptyDataError then None
                            else if e = ParserError then None
                            else None)
                 in (Inr df, fs1, gets1)))
      else (Inr None, fs, gets1))"

text \<open>
  The exception, if any, that the function raises before it reaches the \<^verbatim>\<open>try\<close>
  (lines 246-256): none without \<^verbatim>\<open>save_csv\<close>, otherwise that of writing the file.
\<close>

definition save_outcome ::
  "'fs os \<Rightarrow> bool \<Rightarrow> 'fs \<Rightarrow> string \<Rightarrow> string \<Rightarrow> string \<Rightarrow> string \<Rightarrow> string \<Rightarrow> string \<Rightarrow>
   exn option" where
  "save_outcome sys save_csv fs landscapeId companyId mainPeriodStart mainPeriodEnd channel
       content =
     (if save_csv then
        fst (save_csv_file sys fs landscapeId (if companyId = [] then ''all'' else companyId)
               mainPeriodStart mainPeriodEnd channel content)
      else None)"

text \<open>
  Two behaviours of the operating system, for the examples. Both keep as their state
  the list of the calls made. With the first every call succeeds; with the second
  \<^verbatim>\<open>open\<close> raises, as it does when the file name leads into a directory that does
  not exist.
\<close>

datatype fs_call = Makedirs string | Written string string

definition recording_os :: "fs_call list os" where
  "recording_os =
     \<lparr>os_path_exists = (\<lambda>fs p. Makedirs p \<in> set fs),
      os_makedirs = (\<lambda>fs p. (None, fs @ [Makedirs p])),
      open_write = (\<lambda>fs p content. (None, fs @ [Written p content]))\<rparr>"

definition refusing_os :: "fs_call list os" where
  "refusing_os =
     \<lparr>os_path_exists = (\<lambda>fs p. Makedirs p \<in> set fs),
      os_makedirs = (\<lambda>fs p. (None, fs @ [Makedirs p])),
      open_write = (\<lambda>fs p content. (Some OSError, fs))\<rparr>"

text \<open>Concrete retrieval responses used in the examples below.\<close>

definition empty_body_web :: "string \<Rightarrow> response" where
  "empty_body_web link = \<lparr>status_code = 200, text_of = [], json = None\<rparr>"

definition two_row_web :: "string \<Rightarrow> response" where
  "two_row_web link =
     \<lparr>status_code = 200, text_of = ''a,b\<newline>1,2\<newline>3,4'', json = None\<rparr>"

definition error_web :: "string \<Rightarrow> response" where
  "error_web link = \<lparr>status_code = 500, text_of = ''Internal Server Error'', json = None\<rparr>"

text \<open>
  The spec's "empty table": a value that is a table and has zero rows.
\<close>

definition returns_empty_table :: "exn + dataframe option \<Rightarrow> bool" where
  "returns_empty_table res =
     (case res of
        Inl e \<Rightarrow> False
      | Inr None \<Rightarrow> False
      | Inr (Some table) \<Rightarrow> rows table = [])"

section \<open>Following companies (rivaliq\_functions.py)\<close>

text \<open>
  The values a caller can put in the \<^verbatim>\<open>companyIds\<close> list. \<^verbatim>\<open>isinstance(x, int)\<close>
  holds for integers and for booleans (\<^verbatim>\<open>bool\<close> is a subclass of \<^verbatim>\<open>int\<close>).
\<close>

datatype pyval = PyInt int | PyBool bool | PyStr string | PyNone

fun isinstance_int :: "pyval \<Rightarrow> bool" where
  "isinstance_int (PyInt i) = True"
| "isinstance_int (PyBool b) = True"
| "isinstance_int (PyStr s) = False"
| "isinstance_int PyNone = False"

text \<open>
  A POST request: its URL and the list sent as \<^verbatim>\<open>{'companyIds': ...}\<close>.
\<close>

record post_request =
  url :: string
  body_companyIds :: "pyval list"

text \<open>
  \<^verbatim>\<open>post_followCompanies\<close> (lines 408-444). \<open>api\<close> answers a POST; \<open>sent\<close> is the
  list of the requests issued so far, returned with the new request appended when one
  is issued. With \<^verbatim>\<open>verbose\<close> the response is decoded as JSON and printed.
\<close>

definition post_followCompanies ::
  "(post_request \<Rightarrow> response) \<Rightarrow> string \<Rightarrow> string \<Rightarrow> pyval list \<Rightarrow> bool \<Rightarrow>
   post_request list \<Rightarrow> (exn + unit) \<times> post_request list" where
  "post_followCompanies api apiKey landscapeId companyIds verbose sent =
     (if length companyIds > 10 then (Inl TooManyCompanies, sent)
      else if \<not> list_all isinstance_int companyIds then (Inl NotAllIntegers, sent)
      else
        (let request =
               \<lparr>url = ''https://api.rivaliq.com/v3/landscapes/'' @ landscapeId
                        @ ''/companies/byId?apiKey='' @ apiKey,
                body_companyIds = companyIds\<rparr>;
             response = api request;
             sent1 = sent @ [request]
         in if status_code response = 200 then
              (if verbose then
                 (case json response of
                    None \<Rightarrow> (Inl JSONDecodeError, sent1)
                  | Some data \<Rightarrow> (Inr (), sent1))
               else (Inr (), sent1))
            else (Inl (HttpError (status_code response)), sent1)))"

definition ok_api :: "post_request \<Rightarrow> response" where
  "ok_api request = \<lparr>status_code = 200, text_of = ''{}'', json = Some Map.empty\<rparr>"

section \<open>The mailbox helpers (vee\_mails.py)\<close>

subsection \<open>Single-URL extraction\<close>

text \<open>
  The two patterns of \<^verbatim>\<open>extract_url_from_body\<close> have the same shape: a literal
  prefix followed by one or more characters of the class \<^verbatim>\<open>[^\s<>"'()]\<close>. Without a
  base URL the prefix is \<^verbatim>\<open>https?://\<close>, that is \<^verbatim>\<open>https://\<close> or \<^verbatim>\<open>http://\<close>; with
  one it is \<^verbatim>\<open>re.escape(base_url)\<close>, which matches the base URL literally. A pattern
  is modelled by the list of its literal prefixes.

  Characters are code points below 256; \<^verbatim>\<open>\s\<close> is the white space among them.
\<close>

definition is_space :: "char \<Rightarrow> bool" where
  "is_space c = (c \<in> set [CHR 0x09, CHR 0x0A, CHR 0x0B, CHR 0x0C, CHR 0x0D, CHR 0x20,
                           CHR 0x85, CHR 0xA0])"

definition url_char :: "char \<Rightarrow> bool" where
  "url_char c = (\<not> is_space c \<and> c \<notin> set [CHR ''<'', CHR ''>'', CHR 0x22, CHR 0x27,
                                            CHR ''('', CHR '')''])"

definition url_pattern :: "string option \<Rightarrow> string list" where
  "url_pattern base_url =
     (case base_url of
        None \<Rightarrow> [''https://'', ''http://'']
      | Some base \<Rightarrow> [base])"

text \<open>
  The match of the pattern that starts at the first character of \<open>s\<close>, if there is
  one: a prefix, then the longest run of class characters, which must not be empty.
\<close>

fun match_at :: "string list \<Rightarrow> string \<Rightarrow> string option" where
  "match_at [] s = None"
| "match_at (p # ps) s =
     (if prefix p s \<and> takeWhile url_char (drop (length p) s) \<noteq> []
      then Some (p @ takeWhile url_char (drop (length p) s))
      else match_at ps s)"

text \<open>
  \<^verbatim>\<open>re.findall\<close>: the matches from left to right, without overlap; the search
  resumes where the last match ended.
\<close>

function findall :: "string list \<Rightarrow> string \<Rightarrow> string list" where
  "findall ps [] = []"
| "findall ps (c # cs) =
     (case match_at ps (c # cs) of
        None \<Rightarrow> findall ps cs
      | Some m \<Rightarrow> m # findall ps (drop (length m) (c # cs)))"
  by pat_completeness auto
termination
proof (relation "measure (\<lambda>(ps, s). length s)")
  show "wf (measure (\<lambda>(ps, s). length s))" by simp
next
  fix ps :: "string list" and c :: char and cs :: string
  show "((ps, cs), (ps, c # cs)) \<in> measure (\<lambda>(ps, s). length s)" by simp
next
  fix ps :: "string list" and c :: char and cs m :: string
  assume found: "match_at ps (c # cs) = Some m"
  have "m \<noteq> []" if "match_at qs s = Some m" for qs s
    using that by (induction qs) (auto split: if_splits)
  with found have "0 < length m" by blast
  then show "((ps, drop (length m) (c # cs)), (ps, c # cs)) \<in> measure (\<lambda>(ps, s). length s)"
    by simp
qed

text \<open>\<^verbatim>\<open>extract_url_from_body\<close> (lines 244-282).\<close>

definition extract_url_from_body :: "string \<Rightarrow> string option \<Rightarrow> exn + string" where
  "extract_url_from_body body base_url =
     (let urls = findall (url_pattern base_url) body
      in if length urls = 1 then Inr (urls ! 0)
         else if length urls = 0 then Inl (ValueError ''No URL found in the email content.'')
         else Inl (ValueError ''More than one URL found in the email content.''))"

subsection \<open>Parsing an attachment\<close>

text \<open>
  \<^verbatim>\<open>parse_csv\<close> (lines 355-408). The loop over \<^verbatim>\<open>enumerate(lines)\<close> stops at the
  first line that contains every key column as a substring; \<open>find_header_row\<close> is that
  loop, counting from \<open>i\<close>. When no line qualifies, \<^verbatim>\<open>header_row_index\<close> is still
  \<^verbatim>\<open>None\<close>, and the slice \<^verbatim>\<open>lines[None:]\<close> is the whole list.
\<close>

definition default_key_columns :: "string list" where
  "default_key_columns = [''Day'', ''Media Owner'', ''Venue Type'', ''Advertiser'']"

fun find_header_row :: "string list \<Rightarrow> string list \<Rightarrow> nat \<Rightarrow> nat option" where
  "find_header_row key_columns [] i = None"
| "find_header_row key_columns (line # lines) i =
     (if list_all (\<lambda>key_column. sublist key_column line) key_columns then Some i
      else find_header_row key_columns lines (Suc i))"

definition parse_csv ::
  "(string \<Rightarrow> exn + 'df) \<Rightarrow> string \<Rightarrow> string list option \<Rightarrow> exn + 'df" where
  "parse_csv rd csv_content key_columns =
     (let key_columns =
            (case key_columns of None \<Rightarrow> default_key_columns | Some ks \<Rightarrow> ks);
          lines = split_on newline csv_content;
          header_row_index = find_header_row key_columns lines 0;
          csv_content_from_header =
            join newline
              (case header_row_index of None \<Rightarrow> lines | Some i \<Rightarrow> drop i lines)
      in rd csv_content_from_header)"

section \<open>Properties of the poller\<close>

lemma queries_append: "queries (w @ v) = queries w + queries v"
  by (simp add: queries_def)

lemma queries_polling_trace: "queries (polling_trace n) = n"
  by (induction n) (simp_all add: queries_def)

lemma slept_append: "slept (w @ v) = slept w + slept v"
  by (simp add: slept_def)

lemma slept_polling_trace: "slept (polling_trace n) = 60 * n"
  by (induction n) (simp_all add: slept_def)

lemma waits_interval_polling_trace: "waits_interval 60 (polling_trace n @ [Query])"
  by (induction n) simp_all

lemma in_progress_step:
  assumes "in_progress (srv (queries w))"
  shows "check_bulkDownload_status (Suc n) srv w =
         check_bulkDownload_status n srv (w @ [Query, Sleep 60])"
  using assms
  by (auto simp: in_progress_def get_bulkDownload_status_def Let_def split: option.splits)

lemma ready_step:
  assumes "ready (srv (queries w)) href"
  shows "check_bulkDownload_status (Suc n) srv w = (Some (Inr href), w @ [Query])"
  using assms
  by (auto simp: ready_def get_bulkDownload_status_def Let_def split: option.splits)

text \<open>
  Whatever the state of the polling, a "failed" answer ends the call at once, with the
  exception of line 210.
\<close>

lemma failed_step:
  assumes "failed (srv (queries w))"
  shows "check_bulkDownload_status (Suc n) srv w =
         (Some (Inl (NotSubscriptable 210)), w @ [Query])"
  using assms
  by (auto simp: failed_def get_bulkDownload_status_def subscript_response_def Let_def
      split: option.splits)

lemma stuck_run:
  assumes "\<forall>k. in_progress (srv k)"
  shows "check_bulkDownload_status n srv w = (None, w @ polling_trace n)"
  using assms
proof (induction n arbitrary: w)
  case 0
  then show ?case by simp
next
  case (Suc n)
  have "check_bulkDownload_status (Suc n) srv w =
        check_bulkDownload_status n srv (w @ [Query, Sleep 60])"
    using Suc.prems by (intro in_progress_step) blast
  also have "\<dots> = (None, (w @ [Query, Sleep 60]) @ polling_trace n)"
    using Suc.IH Suc.prems by blast
  finally show ?case by simp
qed

lemma ready_run:
  assumes "\<forall>k<N. in_progress (srv (queries w + k))"
      and "ready (srv (queries w + N)) href"
      and "N < fuel"
  shows "check_bulkDownload_status fuel srv w =
         (Some (Inr href), w @ polling_trace N @ [Query])"
  using assms
proof (induction N arbitrary: w fuel)
  case 0
  then obtain m where fuel: "fuel = Suc m" by (cases fuel) auto
  from 0 have "ready (srv (queries w)) href" by simp
  then have "check_bulkDownload_status (Suc m) srv w = (Some (Inr href), w @ [Query])"
    by (rule ready_step)
  then show ?case unfolding fuel by simp
next
  case (Suc N)
  then obtain m where fuel: "fuel = Suc m" and m: "N < m" by (cases fuel) auto
  let ?w = "w @ [Query, Sleep 60]"
  have q: "queries ?w = Suc (queries w)" by (simp add: queries_def)
  from Suc.prems(1) have first: "in_progress (srv (queries w))"
    by (metis add.right_neutral zero_less_Suc)
  have rest: "\<forall>k<N. in_progress (srv (queries ?w + k))"
  proof (intro allI impI)
    fix k assume "k < N"
    then have "Suc k < Suc N" by simp
    with Suc.prems(1) have "in_progress (srv (queries w + Suc k))" by blast
    then show "in_progress (srv (queries ?w + k))" by (simp add: q)
  qed
  have last: "ready (srv (queries ?w + N)) href"
    using Suc.prems(2) by (simp add: q)
  have "check_bulkDownload_status fuel srv w = check_bulkDownload_status m srv ?w"
    unfolding fuel using first by (rule in_progress_step)
  also have "\<dots> = (Some (Inr href), ?w @ polling_trace N @ [Query])"
    using rest last m by (rule Suc.IH)
  finally show ?case by simp
qed

lemma get_bulkDownload_status_200:
  assumes "get_bulkDownload_status srv w = (Inr r, w')"
  shows "status_code r = 200"
  using assms by (auto simp: get_bulkDownload_status_def Let_def split: if_splits)

lemma never_line_218:
  "fst (check_bulkDownload_status n srv w) \<noteq> Some (Inl (NotSubscriptable 218))"
proof (induction n arbitrary: w)
  case 0
  show ?case by simp
next
  case (Suc n)
  show ?case
    using Suc.IH [of "w @ [Query, Sleep 60]"]
    by (auto simp: get_bulkDownload_status_def subscript_response_def Let_def
        split: option.splits)
qed

text \<open>
  C1 (as the code has it). \<^verbatim>\<open>check_bulkDownload_status\<close> takes no
  \<^verbatim>\<open>maxWaitSeconds\<close> and checks no deadline. Against a remote that answers every
  status query with "in progress" (HTTP 200, status value other than 2 and 3), any
  number \<open>n\<close> of nested calls ends with nothing returned and nothing raised: \<open>n\<close>
  queries have been issued, each followed by a sleep of 60 seconds, so \<open>60 * n\<close> seconds
  have been slept and the polling goes on.
\<close>

theorem check_bulkDownload_status_no_timeout:
  assumes "\<forall>k. in_progress (srv k)"
  shows "check_bulkDownload_status n srv w = (None, w @ polling_trace n)
       \<and> queries (w @ polling_trace n) = queries w + n
       \<and> slept (w @ polling_trace n) = slept w + 60 * n"
  using stuck_run [OF assms]
  by (simp add: queries_append queries_polling_trace slept_append slept_polling_trace)

theorem check_bulkDownload_status_no_timeout_witness:
  "(\<forall>k. in_progress (stuck_remote k))
   \<and> check_bulkDownload_status 3 stuck_remote [] =
       (None, [Query, Sleep 60, Query, Sleep 60, Query, Sleep 60])
   \<and> queries [Query, Sleep 60, Query, Sleep 60, Query, Sleep 60] = 3
   \<and> slept [Query, Sleep 60, Query, Sleep 60, Query, Sleep 60] = 180"
proof -
  have h: "\<forall>k. in_progress (stuck_remote k)"
    by (simp add: in_progress_def stuck_remote_def pending_response_def)
  have t: "polling_trace 3 = [Query, Sleep 60, Query, Sleep 60, Query, Sleep 60]"
    by (simp add: numeral_3_eq_3)
  show ?thesis
    using h check_bulkDownload_status_no_timeout [OF h, of 3 "[]"]
    by (simp add: t queries_def slept_def)
qed

text \<open>
  C1 as the spec states it fails. With \<^verbatim>\<open>maxWaitSeconds = 120\<close> and a remote that
  stays "in progress", four nested calls end with no exception raised, and the trace
  holds a status query issued after more than 120 seconds of waiting.
\<close>

theorem poll_timeout_counterexample:
  "fst (check_bulkDownload_status 4 stuck_remote []) = None
   \<and> \<not> within_deadline 120 0 (snd (check_bulkDownload_status 4 stuck_remote []))"
  by (simp add: numeral_nat get_bulkDownload_status_def queries_def
      stuck_remote_def pending_response_def)

text \<open>
  C2 (the code at the failing input). The remote answers the first status query with
  HTTP 200 and status 3. The call ends after that single query, but what it raises is
  the \<^verbatim>\<open>TypeError\<close> of line 210 (\<^verbatim>\<open>response['status_code']\<close> on a Response object),
  not the \<^verbatim>\<open>Exception("Download Failed! ...")\<close> of line 212.
\<close>

theorem check_bulkDownload_status_failed_raises_TypeError:
  "check_bulkDownload_status 5 failing_remote [] =
     (Some (Inl (NotSubscriptable 210)), [Query])"
  by (simp add: numeral_nat get_bulkDownload_status_def queries_def
      subscript_response_def failing_remote_def failed_response_def)

text \<open>
  C3 (as the code has it). When the remote reports "in progress" \<open>N\<close> times and then
  "ready", and the \<open>N + 1\<close> nested calls this takes stay within the interpreter's
  recursion limit, the function returns the retrieval address after exactly \<open>N + 1\<close>
  status queries, with one sleep of the fixed 60 seconds between consecutive queries.
  The interval is a constant of the source, not a parameter.
\<close>

theorem check_bulkDownload_status_ready_after_N:
  assumes "\<forall>k<N. in_progress (srv (queries w + k))"
      and "ready (srv (queries w + N)) href"
      and "N < fuel"
      and "fits_stack depth inner (N + 1)"
  shows "check_bulkDownload_status fuel srv w =
           (Some (Inr href), w @ polling_trace N @ [Query])
       \<and> queries (w @ polling_trace N @ [Query]) = queries w + (N + 1)
       \<and> waits_interval 60 (polling_trace N @ [Query])"
  using ready_run [OF assms(1) assms(2) assms(3)]
  by (simp add: queries_append queries_polling_trace waits_interval_polling_trace)
     (simp add: queries_def)

theorem check_bulkDownload_status_ready_after_N_witness:
  "in_progress (slow_remote 0)
   \<and> ready (slow_remote 1) (JStr ''https://x/y.csv'')
   \<and> (1::nat) < 2
   \<and> fits_stack 3 20 (1 + 1)
   \<and> check_bulkDownload_status 2 slow_remote [] =
       (Some (Inr (JStr ''https://x/y.csv'')), [Query, Sleep 60, Query])
   \<and> queries [Query, Sleep 60, Query] = 2
   \<and> waits_interval 60 [Query, Sleep 60, Query]"
proof -
  have h0: "in_progress (slow_remote 0)"
    by (simp add: in_progress_def slow_remote_def pending_response_def)
  have h1: "\<forall>k<1. in_progress (slow_remote (queries [] + k))"
    using h0 by (simp add: queries_def)
  have h2: "ready (slow_remote (queries [] + 1)) (JStr ''https://x/y.csv'')"
    by (simp add: ready_def slow_remote_def ready_response_def queries_def)
  have h3: "(1::nat) < 2" by simp
  have h4: "fits_stack 3 20 (1 + 1)"
    by (simp add: fits_stack_def recursion_limit_def)
  have t: "polling_trace 1 = [Query, Sleep 60]"
    by simp
  show ?thesis
    using h0 h2 h4 check_bulkDownload_status_ready_after_N [OF h1 h2 h3 h4]
    by (simp add: t queries_def)
qed

text \<open>
  C3 as the spec states it fails. A caller who wants to poll every 5 seconds has no way
  to say so: against a remote that is "in progress" once and then "ready", the wait
  between the two queries is 60 seconds.
\<close>

theorem poll_interval_counterexample:
  "snd (check_bulkDownload_status 2 slow_remote []) = [Query, Sleep 60, Query]
   \<and> \<not> waits_interval 5 (snd (check_bulkDownload_status 2 slow_remote []))"
  by (simp add: numeral_nat get_bulkDownload_status_def queries_def
      slow_remote_def pending_response_def ready_response_def)

text \<open>
  C9. \<^verbatim>\<open>get_bulkDownload_status\<close> returns a response only when its status code is
  200, so the final \<^verbatim>\<open>else\<close> of \<^verbatim>\<open>check_bulkDownload_status\<close> (line 217) is never
  taken: whatever the remote answers and however many calls are made, the function
  never ends with the exception raised at line 218.
\<close>

theorem non_200_branch_unreachable:
  "(get_bulkDownload_status srv w = (Inr r, w') \<longrightarrow> status_code r = 200)
   \<and> fst (check_bulkDownload_status n srv w) \<noteq> Some (Inl (NotSubscriptable 218))"
  using get_bulkDownload_status_200 [of srv w r w'] never_line_218 [of n srv w]
  by blast

theorem non_200_branch_unreachable_witness:
  "get_bulkDownload_status slow_remote [] = (Inr pending_response, [Query])
   \<and> status_code pending_response = 200
   \<and> fst (check_bulkDownload_status 2 slow_remote []) \<noteq> Some (Inl (NotSubscriptable 218))"
proof -
  have h: "get_bulkDownload_status slow_remote [] = (Inr pending_response, [Query])"
    by (simp add: get_bulkDownload_status_def slow_remote_def pending_response_def queries_def)
  show ?thesis
    using h non_200_branch_unreachable [of slow_remote "[]" pending_response "[Query]" 2]
    by simp
qed

section \<open>Properties of fetching the result\<close>

lemmas csv_eval = read_csv_def newline_def comma_def is_blank_def is_c_space_def Let_def
  pad_def read_field_def int_column_def int_literal_def is_digit_def digits_value_def

lemmas os_eval = save_outcome_def save_csv_file_def recording_os_def refusing_os_def Let_def

lemma read_csv_empty: "read_csv [] = Inl EmptyDataError"
  by (simp add: csv_eval)

lemma read_csv_two_rows:
  "read_csv ''a,b\<newline>1,2\<newline>3,4'' =
     Inr \<lparr>columns = [''a'', ''b''], rows = [[IntCell 1, IntCell 2], [IntCell 3, IntCell 4]]\<rparr>"
  by (simp add: csv_eval)

lemma plain_csv_two_rows: "plain_csv ''a,b\<newline>1,2\<newline>3,4''"
  by (simp add: plain_csv_def canonical_int_def is_name_char_def csv_eval)

lemma download_non_200:
  assumes "status_code (web link) \<noteq> 200"
  shows "download_bulkSocialPosts_csv sys rd web link landscapeId companyId
           mainPeriodStart mainPeriodEnd channel save_csv fs gets =
         (Inr None, fs, gets @ [link])"
  using assms by (simp add: download_bulkSocialPosts_csv_def Let_def)

lemma download_saved:
  assumes "status_code (web link) = 200"
      and "save_outcome sys save_csv fs landscapeId companyId mainPeriodStart mainPeriodEnd
             channel (text_of (web link)) = None"
  shows "fst (download_bulkSocialPosts_csv sys rd web link landscapeId companyId
                mainPeriodStart mainPeriodEnd channel save_csv fs gets) =
           Inr (case rd (text_of (web link)) of Inl e \<Rightarrow> None | Inr table \<Rightarrow> Some table)"
    and "snd (snd (download_bulkSocialPosts_csv sys rd web link landscapeId companyId
                mainPeriodStart mainPeriodEnd channel save_csv fs gets)) = gets @ [link]"
  using assms
  by (auto simp: download_bulkSocialPosts_csv_def save_outcome_def Let_def
      split: prod.splits option.splits sum.splits if_splits)

lemma download_save_raises:
  assumes "status_code (web link) = 200"
      and "save_outcome sys save_csv fs landscapeId companyId mainPeriodStart mainPeriodEnd
             channel (text_of (web link)) = Some e"
  shows "fst (download_bulkSocialPosts_csv sys rd web link landscapeId companyId
                mainPeriodStart mainPeriodEnd channel save_csv fs gets) = Inl e"
  using assms
  by (auto simp: download_bulkSocialPosts_csv_def save_outcome_def Let_def
      split: prod.splits option.splits if_splits)

text \<open>
  C4 (as the code has it). The retrieval answers 200 and the CSV reader raises on the
  body (\<^verbatim>\<open>EmptyDataError\<close>, \<^verbatim>\<open>ParserError\<close> or any other exception). When nothing was
  raised before the \<^verbatim>\<open>try\<close> (no \<^verbatim>\<open>save_csv\<close>, or the file written without error),
  \<^verbatim>\<open>download_bulkSocialPosts_csv\<close> does not raise and returns \<^verbatim>\<open>None\<close> after its single
  GET; \<^verbatim>\<open>None\<close> is not a table, and it is the very value the function returns when
  the request fails, so the return value does not tell the two cases apart. When
  writing the file raises, that exception leaves the function.
\<close>

theorem download_parse_failure_returns_None:
  assumes "status_code (web link) = 200"
      and "rd (text_of (web link)) = Inl e"
      and "status_code (web' link') \<noteq> 200"
  shows "(save_outcome sys save_csv fs landscapeId companyId mainPeriodStart mainPeriodEnd
            channel (text_of (web link)) = None \<longrightarrow>
            fst (download_bulkSocialPosts_csv sys rd web link landscapeId companyId
                   mainPeriodStart mainPeriodEnd channel save_csv fs gets) = Inr None
          \<and> snd (snd (download_bulkSocialPosts_csv sys rd web link landscapeId companyId
                   mainPeriodStart mainPeriodEnd channel save_csv fs gets)) = gets @ [link]
          \<and> fst (download_bulkSocialPosts_csv sys rd web' link' landscapeId companyId
                   mainPeriodStart mainPeriodEnd channel save_csv fs gets) =
            fst (download_bulkSocialPosts_csv sys rd web link landscapeId companyId
                   mainPeriodStart mainPeriodEnd channel save_csv fs gets))
       \<and> (save_outcome sys save_csv fs landscapeId companyId mainPeriodStart mainPeriodEnd
            channel (text_of (web link)) = Some e' \<longrightarrow>
            fst (download_bulkSocialPosts_csv sys rd web link landscapeId companyId
                   mainPeriodStart mainPeriodEnd channel save_csv fs gets) = Inl e')"
proof (intro conjI impI)
  assume ok: "save_outcome sys save_csv fs landscapeId companyId mainPeriodStart
                mainPeriodEnd channel (text_of (web link)) = None"
  have r: "fst (download_bulkSocialPosts_csv sys rd web link landscapeId companyId
                  mainPeriodStart mainPeriodEnd channel save_csv fs gets) = Inr None"
    using download_saved(1) [where web = web and link = link and rd = rd and gets = gets,
            OF assms(1) ok]
    by (simp add: assms(2))
  show "fst (download_bulkSocialPosts_csv sys rd web link landscapeId companyId
               mainPeriodStart mainPeriodEnd channel save_csv fs gets) = Inr None"
    by (rule r)
  show "snd (snd (download_bulkSocialPosts_csv sys rd web link landscapeId companyId
               mainPeriodStart mainPeriodEnd channel save_csv fs gets)) = gets @ [link]"
    using download_saved(2) [where web = web and link = link and rd = rd and gets = gets,
            OF assms(1) ok]
    by simp
  show "fst (download_bulkSocialPosts_csv sys rd web' link' landscapeId companyId
               mainPeriodStart mainPeriodEnd channel save_csv fs gets) =
        fst (download_bulkSocialPosts_csv sys rd web link landscapeId companyId
               mainPeriodStart mainPeriodEnd channel save_csv fs gets)"
    unfolding r using assms(3) by (simp add: download_non_200)
next
  assume "save_outcome sys save_csv fs landscapeId companyId mainPeriodStart
            mainPeriodEnd channel (text_of (web link)) = Some e'"
  with assms(1)
  show "fst (download_bulkSocialPosts_csv sys rd web link landscapeId companyId
               mainPeriodStart mainPeriodEnd channel save_csv fs gets) = Inl e'"
    by (rule download_save_raises [where web = web and link = link])
qed

theorem download_parse_failure_returns_None_witness:
  "status_code (empty_body_web ''https://x/y.csv'') = 200
   \<and> read_csv (text_of (empty_body_web ''https://x/y.csv'')) = Inl EmptyDataError
   \<and> status_code (error_web ''https://x/z.csv'') \<noteq> 200
   \<and> save_outcome recording_os True [] ''17'' [] ''2024-01-01'' ''2024-01-31'' ''all''
        (text_of (empty_body_web ''https://x/y.csv'')) = None
   \<and> fst (download_bulkSocialPosts_csv recording_os read_csv empty_body_web
             ''https://x/y.csv'' ''17'' [] ''2024-01-01'' ''2024-01-31'' ''all'' True [] [])
       = Inr None
   \<and> snd (snd (download_bulkSocialPosts_csv recording_os read_csv empty_body_web
             ''https://x/y.csv'' ''17'' [] ''2024-01-01'' ''2024-01-31'' ''all'' True [] []))
       = [''https://x/y.csv'']
   \<and> fst (download_bulkSocialPosts_csv recording_os read_csv error_web
             ''https://x/z.csv'' ''17'' [] ''2024-01-01'' ''2024-01-31'' ''all'' True [] [])
       = Inr None
   \<and> save_outcome refusing_os True [] ''17'' [] ''2024/01/01'' ''2024-01-31'' ''all''
        (text_of (empty_body_web ''https://x/y.csv'')) = Some OSError
   \<and> fst (download_bulkSocialPosts_csv refusing_os read_csv empty_body_web
             ''https://x/y.csv'' ''17'' [] ''2024/01/01'' ''2024-01-31'' ''all'' True [] [])
       = Inl OSError"
proof -
  have h1: "status_code (empty_body_web ''https://x/y.csv'') = 200"
    by (simp add: empty_body_web_def)
  have h2: "read_csv (text_of (empty_body_web ''https://x/y.csv'')) = Inl EmptyDataError"
    by (simp add: empty_body_web_def read_csv_empty)
  have h3: "status_code (error_web ''https://x/z.csv'') \<noteq> 200"
    by (simp add: error_web_def)
  have s1: "save_outcome recording_os True [] ''17'' [] ''2024-01-01'' ''2024-01-31'' ''all''
        (text_of (empty_body_web ''https://x/y.csv'')) = None"
    by (simp add: os_eval)
  have s2: "save_outcome refusing_os True [] ''17'' [] ''2024/01/01'' ''2024-01-31'' ''all''
        (text_of (empty_body_web ''https://x/y.csv'')) = Some OSError"
    by (simp add: os_eval)
  show ?thesis
    using h1 h2 h3 s1 s2
      download_parse_failure_returns_None [where web = empty_body_web
        and link = "''https://x/y.csv''" and rd = read_csv and web' = error_web
        and link' = "''https://x/z.csv''" and sys = recording_os and save_csv = True
        and fs = "[]" and gets = "[]" and landscapeId = "''17''" and companyId = "[]"
        and mainPeriodStart = "''2024-01-01''" and mainPeriodEnd = "''2024-01-31''"
        and channel = "''all''", OF h1 h2 h3]
      download_parse_failure_returns_None [where web = empty_body_web
        and link = "''https://x/y.csv''" and rd = read_csv and web' = error_web
        and link' = "''https://x/z.csv''" and sys = refusing_os and save_csv = True
        and fs = "[]" and gets = "[]" and landscapeId = "''17''" and companyId = "[]"
        and mainPeriodStart = "''2024/01/01''" and mainPeriodEnd = "''2024-01-31''"
        and channel = "''all''" and e' = OSError, OF h1 h2 h3]
    by simp
qed

text \<open>
  C4 as the spec states it fails. On a 200 response with an empty body the reader raises
  \<^verbatim>\<open>EmptyDataError\<close> and the function returns \<^verbatim>\<open>None\<close>, not a table with zero rows; a
  failed request (status 500) returns \<^verbatim>\<open>None\<close> as well.
\<close>

theorem download_empty_body_counterexample:
  "\<not> returns_empty_table
       (fst (download_bulkSocialPosts_csv recording_os read_csv empty_body_web
               ''https://x/y.csv'' ''17'' [] ''2024-01-01'' ''2024-01-31'' ''all'' False [] []))
   \<and> fst (download_bulkSocialPosts_csv recording_os read_csv empty_body_web
               ''https://x/y.csv'' ''17'' [] ''2024-01-01'' ''2024-01-31'' ''all'' False [] [])
       = Inr None
   \<and> fst (download_bulkSocialPosts_csv recording_os read_csv error_web
               ''https://x/y.csv'' ''17'' [] ''2024-01-01'' ''2024-01-31'' ''all'' False [] [])
       = Inr None"
  by (simp add: download_bulkSocialPosts_csv_def empty_body_web_def error_web_def
      read_csv_empty returns_empty_table_def)

text \<open>
  C5 (as the code has it). When the retrieval answers with a status code other than
  200, \<^verbatim>\<open>download_bulkSocialPosts_csv\<close> raises nothing: after that single GET it
  returns \<^verbatim>\<open>None\<close> (the status code is only printed). No second request is made and
  no call of the operating system: the file store is as it was.
\<close>

theorem download_non_200_returns_None:
  assumes "status_code (web link) \<noteq> 200"
  shows "download_bulkSocialPosts_csv sys rd web link landscapeId companyId
           mainPeriodStart mainPeriodEnd channel save_csv fs gets =
         (Inr None, fs, gets @ [link])"
  using assms by (rule download_non_200)

theorem download_non_200_returns_None_witness:
  "status_code (error_web ''https://x/y.csv'') \<noteq> 200
   \<and> download_bulkSocialPosts_csv recording_os read_csv error_web ''https://x/y.csv''
        ''17'' ''42'' ''2024-01-01'' ''2024-01-31'' ''twitter'' True [] [] =
      (Inr None, [], [''https://x/y.csv''])"
proof -
  have h: "status_code (error_web ''https://x/y.csv'') \<noteq> 200"
    by (simp add: error_web_def)
  show ?thesis
    using h
      download_non_200_returns_None [where web = error_web
        and link = "''https://x/y.csv''" and sys = recording_os and rd = read_csv
        and fs = "[]" and gets = "[]", OF h]
    by simp
qed

text \<open>
  C5 as the spec states it fails. A retrieval answered with status 500 makes the
  function return \<^verbatim>\<open>None\<close>; it does not raise the exception carrying the status code.
\<close>

theorem download_non_200_counterexample:
  "fst (download_bulkSocialPosts_csv recording_os read_csv error_web ''https://x/y.csv''
          ''17'' ''42'' ''2024-01-01'' ''2024-01-31'' ''twitter'' False [] []) = Inr None
   \<and> fst (download_bulkSocialPosts_csv recording_os read_csv error_web ''https://x/y.csv''
          ''17'' ''42'' ''2024-01-01'' ''2024-01-31'' ''twitter'' False [] [])
       \<noteq> Inl (HttpError 500)"
  by (simp add: download_bulkSocialPosts_csv_def error_web_def)

text \<open>
  C6 (as the code has it). The retrieval answers 200 with the two-row CSV text
  \<^verbatim>\<open>a,b\n1,2\n3,4\<close> (a plain body). When nothing was raised before the \<^verbatim>\<open>try\<close> (no
  \<^verbatim>\<open>save_csv\<close>, or the file written without error), the function returns, after its
  single GET, the table with columns \<open>a\<close>, \<open>b\<close> and rows \<open>[1, 2]\<close>, \<open>[3, 4]\<close> in that
  order. The source passes no \<^verbatim>\<open>dtype\<close> to \<^verbatim>\<open>read_csv\<close>, so the cells are what type
  inference makes of them: integers, not strings.
\<close>

theorem download_two_row_csv:
  assumes "save_outcome sys save_csv fs landscapeId companyId mainPeriodStart mainPeriodEnd
             channel (text_of (two_row_web link)) = None"
  shows "plain_csv (text_of (two_row_web link))
       \<and> fst (download_bulkSocialPosts_csv sys read_csv two_row_web link landscapeId
                companyId mainPeriodStart mainPeriodEnd channel save_csv fs gets) =
           Inr (Some \<lparr>columns = [''a'', ''b''],
                      rows = [[IntCell 1, IntCell 2], [IntCell 3, IntCell 4]]\<rparr>)
       \<and> snd (snd (download_bulkSocialPosts_csv sys read_csv two_row_web link landscapeId
                companyId mainPeriodStart mainPeriodEnd channel save_csv fs gets)) =
           gets @ [link]"
proof -
  have body: "text_of (two_row_web link) = ''a,b\<newline>1,2\<newline>3,4''"
    by (simp add: two_row_web_def)
  have ok: "status_code (two_row_web link) = 200"
    by (simp add: two_row_web_def)
  have parsed: "read_csv (text_of (two_row_web link)) =
          Inr \<lparr>columns = [''a'', ''b''],
               rows = [[IntCell 1, IntCell 2], [IntCell 3, IntCell 4]]\<rparr>"
    unfolding body by (rule read_csv_two_rows)
  have "plain_csv (text_of (two_row_web link))"
    unfolding body by (rule plain_csv_two_rows)
  moreover have "fst (download_bulkSocialPosts_csv sys read_csv two_row_web link landscapeId
                companyId mainPeriodStart mainPeriodEnd channel save_csv fs gets) =
           Inr (Some \<lparr>columns = [''a'', ''b''],
                      rows = [[IntCell 1, IntCell 2], [IntCell 3, IntCell 4]]\<rparr>)"
    using download_saved(1) [where web = two_row_web and link = link and rd = read_csv
            and gets = gets, OF ok assms]
    by (simp add: parsed)
  moreover have "snd (snd (download_bulkSocialPosts_csv sys read_csv two_row_web link
                landscapeId companyId mainPeriodStart mainPeriodEnd channel save_csv fs gets)) =
           gets @ [link]"
    using download_saved(2) [where web = two_row_web and link = link and rd = read_csv
            and gets = gets, OF ok assms]
    by simp
  ultimately show ?thesis by blast
qed

theorem download_two_row_csv_witness:
  "save_outcome recording_os True [] ''17'' ''42'' ''2024-01-01'' ''2024-01-31''
     ''twitter'' (text_of (two_row_web ''https://x/y.csv'')) = None
   \<and> plain_csv (text_of (two_row_web ''https://x/y.csv''))
   \<and> fst (download_bulkSocialPosts_csv recording_os read_csv two_row_web
            ''https://x/y.csv'' ''17'' ''42'' ''2024-01-01'' ''2024-01-31'' ''twitter''
            True [] []) =
       Inr (Some \<lparr>columns = [''a'', ''b''],
                  rows = [[IntCell 1, IntCell 2], [IntCell 3, IntCell 4]]\<rparr>)
   \<and> snd (snd (download_bulkSocialPosts_csv recording_os read_csv two_row_web
            ''https://x/y.csv'' ''17'' ''42'' ''2024-01-01'' ''2024-01-31'' ''twitter''
            True [] [])) = [''https://x/y.csv'']"
proof -
  have h: "save_outcome recording_os True [] ''17'' ''42'' ''2024-01-01'' ''2024-01-31''
     ''twitter'' (text_of (two_row_web ''https://x/y.csv'')) = None"
    by (simp add: os_eval)
  show ?thesis
    using h
      download_two_row_csv [where gets = "[]" and link = "''https://x/y.csv''"
        and sys = recording_os and save_csv = True and fs = "[]", OF h]
    by simp
qed

text \<open>
  C6 as the spec states it fails: the table returned for that body is not the table of
  string cells \<open>[["1", "2"], ["3", "4"]]\<close>.
\<close>

theorem download_two_row_csv_counterexample:
  "fst (download_bulkSocialPosts_csv recording_os read_csv two_row_web ''https://x/y.csv''
          ''17'' [] ''2024-01-01'' ''2024-01-31'' ''all'' False [] [])
     \<noteq> Inr (Some \<lparr>columns = [''a'', ''b''],
                  rows = [[StrCell ''1'', StrCell ''2''], [StrCell ''3'', StrCell ''4'']]\<rparr>)"
  by (simp add: download_bulkSocialPosts_csv_def two_row_web_def read_csv_two_rows)

section \<open>Properties of following companies\<close>

text \<open>
  C7. \<^verbatim>\<open>post_followCompanies\<close> accepts at most 10 company IDs: a list of more than 10
  raises before any request is issued (the list of requests sent is unchanged), and a
  list of at most 10 values that are all integers issues exactly one POST, carrying
  that list.
\<close>

theorem post_followCompanies_limit:
  "(10 < length companyIds \<longrightarrow>
      post_followCompanies api apiKey landscapeId companyIds verbose sent =
        (Inl TooManyCompanies, sent))
   \<and> (length companyIds \<le> 10 \<and> list_all isinstance_int companyIds \<longrightarrow>
      snd (post_followCompanies api apiKey landscapeId companyIds verbose sent) =
        sent @ [\<lparr>url = ''https://api.rivaliq.com/v3/landscapes/'' @ landscapeId
                        @ ''/companies/byId?apiKey='' @ apiKey,
                 body_companyIds = companyIds\<rparr>])"
  by (auto simp: post_followCompanies_def Let_def split: option.splits)

theorem post_followCompanies_limit_witness:
  "10 < length [PyInt 1, PyInt 2, PyInt 3, PyInt 4, PyInt 5, PyInt 6, PyInt 7, PyInt 8,
                PyInt 9, PyInt 10, PyInt 11]
   \<and> post_followCompanies ok_api ''key'' ''7''
        [PyInt 1, PyInt 2, PyInt 3, PyInt 4, PyInt 5, PyInt 6, PyInt 7, PyInt 8,
         PyInt 9, PyInt 10, PyInt 11] False [] = (Inl TooManyCompanies, [])
   \<and> length [PyInt 5, PyInt 8] \<le> 10
   \<and> list_all isinstance_int [PyInt 5, PyInt 8]
   \<and> snd (post_followCompanies ok_api ''key'' ''7'' [PyInt 5, PyInt 8] False []) =
        [\<lparr>url = ''https://api.rivaliq.com/v3/landscapes/7/companies/byId?apiKey=key'',
          body_companyIds = [PyInt 5, PyInt 8]\<rparr>]"
  using post_followCompanies_limit [of "[PyInt 1, PyInt 2, PyInt 3, PyInt 4, PyInt 5,
          PyInt 6, PyInt 7, PyInt 8, PyInt 9, PyInt 10, PyInt 11]" ok_api "''key''" "''7''"
          False "[]"]
        post_followCompanies_limit [of "[PyInt 5, PyInt 8]" ok_api "''key''" "''7''"
          False "[]"]
  by simp

section \<open>Properties of the single-URL extraction\<close>

lemma match_at_prefix:
  "match_at ps s = Some m \<Longrightarrow>
     prefix m s \<and> (\<exists>p\<in>set ps. prefix p m \<and> list_all url_char (drop (length p) m))"
proof (induction ps)
  case Nil
  then show ?case by simp
next
  case (Cons p ps)
  show ?case
  proof (cases "prefix p s \<and> takeWhile url_char (drop (length p) s) \<noteq> []")
    case True
    then obtain r where s: "s = p @ r" by (auto simp: prefix_def)
    have m: "m = p @ takeWhile url_char r" using Cons.prems True by (simp add: s)
    have "prefix m s" unfolding m s
      by (simp add: takeWhile_is_prefix)
    moreover have "list_all url_char (drop (length p) m)"
      unfolding m by (simp add: list_all_iff) (meson set_takeWhileD)
    ultimately show ?thesis using m by auto
  next
    case False
    with Cons show ?thesis by auto
  qed
qed

lemma findall_matches:
  "m \<in> set (findall ps body) \<Longrightarrow>
     sublist m body \<and> (\<exists>p\<in>set ps. prefix p m \<and> list_all url_char (drop (length p) m))"
proof (induction ps body rule: findall.induct)
  case (1 ps)
  then show ?case by simp
next
  case (2 ps c cs)
  show ?case
  proof (cases "match_at ps (c # cs)")
    case None
    with 2 have "sublist m cs
        \<and> (\<exists>p\<in>set ps. prefix p m \<and> list_all url_char (drop (length p) m))"
      by simp
    then show ?thesis by (auto simp: sublist_Cons_right)
  next
    case (Some m')
    show ?thesis
    proof (cases "m = m'")
      case True
      with match_at_prefix [OF Some] show ?thesis by auto
    next
      case False
      with 2 Some have "m \<in> set (findall ps (drop (length m') (c # cs)))" by simp
      with 2(2) [OF Some] have
        "sublist m (drop (length m') (c # cs))"
        "\<exists>p\<in>set ps. prefix p m \<and> list_all url_char (drop (length p) m)"
        by auto
      then show ?thesis
        by (meson sublist_drop sublist_order.order.trans)
    qed
  qed
qed

lemma findall_example_one:
  "findall (url_pattern (Some ''https://example.com''))
     ''see https://example.com/r.csv now'' = [''https://example.com/r.csv'']"
  by (simp add: url_pattern_def url_char_def is_space_def)

lemma findall_example_two:
  "findall (url_pattern None) ''a http://x.y/z b https://u.v c'' =
     [''http://x.y/z'', ''https://u.v'']"
  by (simp add: url_pattern_def url_char_def is_space_def)

lemma findall_example_none:
  "findall (url_pattern None) ''no links here'' = []"
  by (simp add: url_pattern_def url_char_def is_space_def)

text \<open>
  C8. \<^verbatim>\<open>extract_url_from_body\<close> returns the match when \<^verbatim>\<open>re.findall\<close> finds exactly
  one match of the URL pattern in the body, and raises \<^verbatim>\<open>ValueError\<close> when it finds
  none or more than one. With a base URL the pattern is restricted to it: a returned
  URL starts with the base URL, and it is one of the matches, a contiguous part of the
  body.
\<close>

theorem extract_url_from_body_single:
  "(length (findall (url_pattern base_url) body) = 1 \<longrightarrow>
      extract_url_from_body body base_url = Inr (hd (findall (url_pattern base_url) body)))
   \<and> (length (findall (url_pattern base_url) body) \<noteq> 1 \<longrightarrow>
      (\<exists>msg. extract_url_from_body body base_url = Inl (ValueError msg)))
   \<and> (extract_url_from_body body (Some base) = Inr u \<longrightarrow>
      prefix base u \<and> sublist u body \<and> u \<in> set (findall (url_pattern (Some base)) body))"
proof (intro conjI impI)
  assume "length (findall (url_pattern base_url) body) = 1"
  then show "extract_url_from_body body base_url =
               Inr (hd (findall (url_pattern base_url) body))"
    by (cases "findall (url_pattern base_url) body") (simp_all add: extract_url_from_body_def)
next
  assume "length (findall (url_pattern base_url) body) \<noteq> 1"
  then show "\<exists>msg. extract_url_from_body body base_url = Inl (ValueError msg)"
    by (simp add: extract_url_from_body_def)
next
  assume r: "extract_url_from_body body (Some base) = Inr u"
  then have u: "u \<in> set (findall (url_pattern (Some base)) body)"
    by (cases "findall (url_pattern (Some base)) body")
       (auto simp: extract_url_from_body_def Let_def split: if_splits)
  from findall_matches [OF u] show "prefix base u" by (simp add: url_pattern_def)
  from findall_matches [OF u] show "sublist u body" by simp
  from u show "u \<in> set (findall (url_pattern (Some base)) body)" .
qed

theorem extract_url_from_body_single_witness:
  "length (findall (url_pattern (Some ''https://example.com''))
             ''see https://example.com/r.csv now'') = 1
   \<and> extract_url_from_body ''see https://example.com/r.csv now''
        (Some ''https://example.com'') = Inr ''https://example.com/r.csv''
   \<and> prefix ''https://example.com'' ''https://example.com/r.csv''
   \<and> sublist ''https://example.com/r.csv'' ''see https://example.com/r.csv now''
   \<and> length (findall (url_pattern None) ''a http://x.y/z b https://u.v c'') \<noteq> 1
   \<and> extract_url_from_body ''a http://x.y/z b https://u.v c'' None =
        Inl (ValueError ''More than one URL found in the email content.'')
   \<and> length (findall (url_pattern None) ''no links here'') \<noteq> 1
   \<and> extract_url_from_body ''no links here'' None =
        Inl (ValueError ''No URL found in the email content.'')"
proof -
  have one: "extract_url_from_body ''see https://example.com/r.csv now''
        (Some ''https://example.com'') = Inr ''https://example.com/r.csv''"
    by (simp only: extract_url_from_body_def findall_example_one Let_def) simp
  have two: "extract_url_from_body ''a http://x.y/z b https://u.v c'' None =
        Inl (ValueError ''More than one URL found in the email content.'')"
    by (simp only: extract_url_from_body_def findall_example_two Let_def) simp
  have none: "extract_url_from_body ''no links here'' None =
        Inl (ValueError ''No URL found in the email content.'')"
    by (simp only: extract_url_from_body_def findall_example_none Let_def) simp
  show ?thesis
    using extract_url_from_body_single [of "Some ''https://example.com''"
            "''see https://example.com/r.csv now''" "''https://example.com''"
            "''https://example.com/r.csv''"]
          extract_url_from_body_single [of None "''a http://x.y/z b https://u.v c''"]
          extract_url_from_body_single [of None "''no links here''"]
    by (simp only: one two none findall_example_one findall_example_two
        findall_example_none) (simp add: sublist_code prefix_code)
qed

section \<open>Properties of parsing an attachment\<close>

lemma split_on_nonempty: "split_on d s \<noteq> []"
  by (induction s) auto

lemma join_split_on: "join d (split_on d s) = s"
proof (induction s)
  case Nil
  show ?case by simp
next
  case (Cons c cs)
  obtain x xs where sp: "split_on d cs = x # xs"
    using split_on_nonempty [of d cs] by (cases "split_on d cs") auto
  show ?case using Cons.IH by (cases xs) (auto simp: sp)
qed

lemma find_header_row_None:
  "find_header_row ks ls i = None \<longleftrightarrow>
     (\<forall>l\<in>set ls. \<not> list_all (\<lambda>k. sublist k l) ks)"
  by (induction ls arbitrary: i) auto

lemma find_header_row_Some:
  "find_header_row ks ls i = Some j \<Longrightarrow>
     i \<le> j \<and> j - i < length ls \<and> list_all (\<lambda>k. sublist k (ls ! (j - i))) ks
     \<and> (\<forall>n<j - i. \<not> list_all (\<lambda>k. sublist k (ls ! n)) ks)"
proof (induction ls arbitrary: i)
  case Nil
  then show ?case by simp
next
  case (Cons l ls)
  show ?case
  proof (cases "list_all (\<lambda>k. sublist k l) ks")
    case True
    with Cons.prems show ?thesis by simp
  next
    case False
    with Cons.prems have "find_header_row ks ls (Suc i) = Some j" by simp
    from Cons.IH [OF this] have ih:
      "Suc i \<le> j" "j - Suc i < length ls"
      "list_all (\<lambda>k. sublist k (ls ! (j - Suc i))) ks"
      "\<forall>n<j - Suc i. \<not> list_all (\<lambda>k. sublist k (ls ! n)) ks"
      by auto
    from ih(1) have eq: "j - i = Suc (j - Suc i)" by simp
    have "\<forall>n<j - i. \<not> list_all (\<lambda>k. sublist k ((l # ls) ! n)) ks"
    proof (intro allI impI)
      fix n assume n: "n < j - i"
      show "\<not> list_all (\<lambda>k. sublist k ((l # ls) ! n)) ks"
      proof (cases n)
        case 0
        with False show ?thesis by simp
      next
        case (Suc n')
        with n eq have "n' < j - Suc i" by simp
        with ih(4) Suc show ?thesis by simp
      qed
    qed
    with ih show ?thesis by (simp add: eq)
  qed
qed

lemma find_header_row_first:
  assumes "n < length ls"
      and "list_all (\<lambda>k. sublist k (ls ! n)) ks"
      and "\<forall>j<n. \<not> list_all (\<lambda>k. sublist k (ls ! j)) ks"
  shows "find_header_row ks ls i = Some (i + n)"
  using assms
proof (induction ls arbitrary: i n)
  case Nil
  then show ?case by simp
next
  case (Cons l ls)
  show ?case
  proof (cases n)
    case 0
    with Cons.prems show ?thesis by simp
  next
    case (Suc m)
    from Cons.prems(3) Suc have here: "\<not> list_all (\<lambda>k. sublist k l) ks"
      by (metis nth_Cons_0 zero_less_Suc)
    have "m < length ls" using Cons.prems(1) Suc by simp
    moreover have "list_all (\<lambda>k. sublist k (ls ! m)) ks"
      using Cons.prems(2) Suc by simp
    moreover have "\<forall>j<m. \<not> list_all (\<lambda>k. sublist k (ls ! j)) ks"
    proof (intro allI impI)
      fix j assume "j < m"
      then have "Suc j < n" using Suc by simp
      with Cons.prems(3) have "\<not> list_all (\<lambda>k. sublist k ((l # ls) ! Suc j)) ks"
        by blast
      then show "\<not> list_all (\<lambda>k. sublist k (ls ! j)) ks" by simp
    qed
    ultimately have "find_header_row ks ls (Suc i) = Some (Suc i + m)"
      by (rule Cons.IH)
    with here Suc show ?thesis by simp
  qed
qed

lemma parse_csv_no_header:
  assumes "find_header_row key_columns (split_on newline csv_content) 0 = None"
  shows "parse_csv rd csv_content (Some key_columns) = rd csv_content"
  using assms by (simp add: parse_csv_def join_split_on)

lemma parse_csv_default_keys:
  "parse_csv rd csv_content None = parse_csv rd csv_content (Some default_key_columns)"
  by (simp add: parse_csv_def)

lemma no_header_example:
  "find_header_row [''Day''] (split_on newline ''x,y\<newline>1,2'') 0 = None"
  by (simp add: newline_def sublist_code prefix_code)

lemma header_example:
  "find_header_row [''Day''] (split_on newline ''junk\<newline>Day,n\<newline>1,2'') 0 = Some 1"
  by (simp add: newline_def sublist_code prefix_code)

lemma header_example_rest:
  "join newline (drop 1 (split_on newline ''junk\<newline>Day,n\<newline>1,2'')) =
     ''Day,n\<newline>1,2''"
  by (simp add: newline_def)

lemma header_example_first:
  "split_on newline ''junk\<newline>Day,n\<newline>1,2'' ! 0 = ''junk''"
  by (simp add: newline_def)

lemma plain_csv_no_header_example: "plain_csv ''x,y\<newline>1,2''"
  by (simp add: plain_csv_def canonical_int_def is_name_char_def csv_eval)

lemma read_csv_no_header_example:
  "read_csv ''x,y\<newline>1,2'' = Inr \<lparr>columns = [''x'', ''y''], rows = [[IntCell 1, IntCell 2]]\<rparr>"
  by (simp add: csv_eval)

text \<open>
  C10 (as the code has it). \<^verbatim>\<open>parse_csv\<close> hands to the CSV reader the text from the
  first line that contains every key column onwards (no earlier line contains them
  all), and returns what the reader returns. When no line contains every key column,
  \<^verbatim>\<open>header_row_index\<close> is still \<^verbatim>\<open>None\<close>, the slice \<^verbatim>\<open>lines[None:]\<close> is the whole
  list of lines, and the reader gets the whole of \<^verbatim>\<open>csv_content\<close>: the result is the
  reader's result on the unchanged input, with no \<^verbatim>\<open>TypeError\<close> and no \<^verbatim>\<open>ValueError\<close>
  of the function's own.
\<close>

theorem parse_csv_header_search:
  "((\<forall>line\<in>set (split_on newline csv_content).
        \<not> list_all (\<lambda>key_column. sublist key_column line) key_columns) \<longrightarrow>
      find_header_row key_columns (split_on newline csv_content) 0 = None
      \<and> parse_csv rd csv_content (Some key_columns) = rd csv_content)
   \<and> (i < length (split_on newline csv_content)
      \<and> list_all (\<lambda>key_column. sublist key_column (split_on newline csv_content ! i))
          key_columns
      \<and> (\<forall>j<i. \<not> list_all (\<lambda>key_column. sublist key_column
                                   (split_on newline csv_content ! j)) key_columns) \<longrightarrow>
      find_header_row key_columns (split_on newline csv_content) 0 = Some i
      \<and> parse_csv rd csv_content (Some key_columns) =
          rd (join newline (drop i (split_on newline csv_content))))"
proof (intro conjI impI)
  assume "\<forall>line\<in>set (split_on newline csv_content).
        \<not> list_all (\<lambda>key_column. sublist key_column line) key_columns"
  then show none: "find_header_row key_columns (split_on newline csv_content) 0 = None"
    by (simp add: find_header_row_None)
  then show "parse_csv rd csv_content (Some key_columns) = rd csv_content"
    by (rule parse_csv_no_header)
next
  assume first: "i < length (split_on newline csv_content)
      \<and> list_all (\<lambda>key_column. sublist key_column (split_on newline csv_content ! i))
          key_columns
      \<and> (\<forall>j<i. \<not> list_all (\<lambda>key_column. sublist key_column
                                   (split_on newline csv_content ! j)) key_columns)"
  then show f: "find_header_row key_columns (split_on newline csv_content) 0 = Some i"
    using find_header_row_first [where i = 0 and n = i and ks = key_columns
            and ls = "split_on newline csv_content"]
    by simp
  then show "parse_csv rd csv_content (Some key_columns) =
          rd (join newline (drop i (split_on newline csv_content)))"
    by (simp add: parse_csv_def)
qed

theorem parse_csv_header_search_witness:
  "find_header_row [''Day''] (split_on newline ''x,y\<newline>1,2'') 0 = None
   \<and> parse_csv read_csv ''x,y\<newline>1,2'' (Some [''Day'']) = read_csv ''x,y\<newline>1,2''
   \<and> (1::nat) < length (split_on newline ''junk\<newline>Day,n\<newline>1,2'')
   \<and> list_all (\<lambda>key_column. sublist key_column
                 (split_on newline ''junk\<newline>Day,n\<newline>1,2'' ! 1)) [''Day'']
   \<and> \<not> list_all (\<lambda>key_column. sublist key_column
                 (split_on newline ''junk\<newline>Day,n\<newline>1,2'' ! 0)) [''Day'']
   \<and> find_header_row [''Day''] (split_on newline ''junk\<newline>Day,n\<newline>1,2'') 0 = Some 1
   \<and> parse_csv read_csv ''junk\<newline>Day,n\<newline>1,2'' (Some [''Day'']) =
       read_csv ''Day,n\<newline>1,2''"
proof -
  have h1: "\<forall>line\<in>set (split_on newline ''x,y\<newline>1,2'').
        \<not> list_all (\<lambda>key_column. sublist key_column line) [''Day'']"
    using no_header_example by (simp only: find_header_row_None)
  have a: "find_header_row [''Day''] (split_on newline ''x,y\<newline>1,2'') 0 = None
      \<and> parse_csv read_csv ''x,y\<newline>1,2'' (Some [''Day'']) = read_csv ''x,y\<newline>1,2''"
    using h1 parse_csv_header_search [of "''x,y\<newline>1,2''" "[''Day'']" read_csv]
    by blast
  have h2: "(1::nat) < length (split_on newline ''junk\<newline>Day,n\<newline>1,2'')"
    by (simp add: newline_def)
  have h3: "list_all (\<lambda>key_column. sublist key_column
                 (split_on newline ''junk\<newline>Day,n\<newline>1,2'' ! 1)) [''Day'']"
    by (simp add: newline_def sublist_code prefix_code)
  have h4: "\<not> list_all (\<lambda>key_column. sublist key_column
                 (split_on newline ''junk\<newline>Day,n\<newline>1,2'' ! 0)) [''Day'']"
    by (simp add: newline_def sublist_code prefix_code)
  have h5: "\<forall>j<1. \<not> list_all (\<lambda>key_column. sublist key_column
                 (split_on newline ''junk\<newline>Day,n\<newline>1,2'' ! j)) [''Day'']"
    using h4 by simp
  have b: "find_header_row [''Day''] (split_on newline ''junk\<newline>Day,n\<newline>1,2'') 0 = Some 1
      \<and> parse_csv read_csv ''junk\<newline>Day,n\<newline>1,2'' (Some [''Day'']) =
       read_csv (join newline (drop 1 (split_on newline ''junk\<newline>Day,n\<newline>1,2'')))"
    using h2 h3 h5
      parse_csv_header_search [of "''junk\<newline>Day,n\<newline>1,2''" "[''Day'']" read_csv 1]
    by blast
  show ?thesis
    using a b h2 h3 h4 by (simp only: header_example_rest simp_thms)
qed

text \<open>
  C10 as the spec states it fails. No line of \<^verbatim>\<open>x,y\n1,2\<close> contains the key column
  \<^verbatim>\<open>Day\<close>, and \<^verbatim>\<open>parse_csv\<close> returns the table of the whole text instead of failing
  with a type error.
\<close>

theorem parse_csv_no_header_counterexample:
  "find_header_row [''Day''] (split_on newline ''x,y\<newline>1,2'') 0 = None
   \<and> plain_csv ''x,y\<newline>1,2''
   \<and> parse_csv read_csv ''x,y\<newline>1,2'' (Some [''Day'']) =
       Inr \<lparr>columns = [''x'', ''y''], rows = [[IntCell 1, IntCell 2]]\<rparr>"
  using no_header_example plain_csv_no_header_example
    parse_csv_no_header [OF no_header_example, of read_csv]
  by (simp only: read_csv_no_header_example simp_thms)

end
